theory Spec2Isabelle
  imports Complex_Main "HOL-Library.Multiset"
begin

section \<open>The roster manager of assignment.py\<close>

text \<open>
  A shallow embedding of \<^verbatim>\<open>src/assignment.py\<close>: the classes \<^verbatim>\<open>SingletonMeta\<close>,
  \<^verbatim>\<open>PlayerRecord\<close> and \<^verbatim>\<open>PlayerManager\<close>, together with the parts of Python's
  \<^verbatim>\<open>csv\<close> and \<^verbatim>\<open>statistics\<close> modules that the manager calls.

  Python objects are references. A \<^verbatim>\<open>PlayerRecord\<close> and a \<^verbatim>\<open>PlayerManager\<close> are
  therefore addresses into a store that is part of the \<open>world\<close>; a method takes \<open>self\<close>
  as an address and the world, and returns its outcome (an exception or a value) and the
  new world. Text is \<open>string\<close>; the integers are Python's unbounded ones. A character
  of a \<open>string\<close> stands for a code point below 256; \<^verbatim>\<open>csv\<close> tells only the delimiter,
  the quote character and the two line-break characters from all others.
\<close>

subsection \<open>Exceptions and outcomes\<close>

datatype error =
    IndexError
  | KeyError string
  | ValueError
  | TypeError
  | StatisticsError
  | FileNotFoundError
  | CsvError

subsection \<open>PlayerRecord\<close>

text \<open>
  \<^verbatim>\<open>__init__\<close> stores its four arguments unchecked. The annotations say \<^verbatim>\<open>str\<close> and
  \<^verbatim>\<open>int\<close>; the program itself can store \<^verbatim>\<open>None\<close> as a name or a team (a short row
  read by \<^verbatim>\<open>load_from_csv\<close>, see there), so the two text fields are \<open>string option\<close> with
  \<open>None\<close> for Python's \<^verbatim>\<open>None\<close>.
\<close>

record PlayerRecord =
  name :: "string option"
  team :: "string option"
  goals :: int
  assists :: int

text \<open>Truth value of an optional text, as \<^verbatim>\<open>if name:\<close> tests it.\<close>

fun truthy :: "string option \<Rightarrow> bool" where
  "truthy None = False"
| "truthy (Some s) = (s \<noteq> [])"

definition edit ::
  "string option \<Rightarrow> string option \<Rightarrow> int option \<Rightarrow> int option \<Rightarrow> PlayerRecord \<Rightarrow> PlayerRecord"
where
  "edit nm tm gs asts self =
     (let s1 = (if truthy nm then self\<lparr>name := nm\<rparr> else self);
          s2 = (if truthy tm then s1\<lparr>team := tm\<rparr> else s1);
          s3 = (case gs of Some g \<Rightarrow> s2\<lparr>goals := g\<rparr> | None \<Rightarrow> s2);
          s4 = (case asts of Some a \<Rightarrow> s3\<lparr>assists := a\<rparr> | None \<Rightarrow> s3)
      in s4)"

subsection \<open>The world: object stores, the singleton table, files and the console\<close>

record PlayerManager =
  players :: "nat list"

record world =
  records :: "nat \<Rightarrow> PlayerRecord"
  next_record :: nat
  managers :: "nat \<Rightarrow> PlayerManager"
  next_manager :: nat
  instances :: "string \<rightharpoonup> nat"
  files :: "string \<rightharpoonup> string"
  stdout :: "string list"

definition print :: "string \<Rightarrow> world \<Rightarrow> world" where
  "print s w = w\<lparr>stdout := stdout w @ [s]\<rparr>"

text \<open>\<^verbatim>\<open>PlayerRecord(name, team, goals, assists)\<close>: a new object at a fresh address.\<close>

definition new_PlayerRecord :: "PlayerRecord \<Rightarrow> world \<Rightarrow> nat \<times> world" where
  "new_PlayerRecord r w =
     (next_record w,
      w\<lparr>records := (records w)(next_record w := r), next_record := Suc (next_record w)\<rparr>)"

text \<open>The attribute \<^verbatim>\<open>self.players\<close>, read and assigned.\<close>

definition get_players :: "nat \<Rightarrow> world \<Rightarrow> nat list" where
  "get_players self w = players (managers w self)"

definition set_players :: "nat \<Rightarrow> nat list \<Rightarrow> world \<Rightarrow> world" where
  "set_players self ps w = w\<lparr>managers := (managers w)(self := (managers w self)\<lparr>players := ps\<rparr>)\<rparr>"

text \<open>The field values of the stored records, in stored order.\<close>

definition contents :: "nat \<Rightarrow> world \<Rightarrow> PlayerRecord list" where
  "contents self w = map (records w) (get_players self w)"

subsection \<open>SingletonMeta and PlayerManager.__init__\<close>

text \<open>
  \<^verbatim>\<open>SingletonMeta.__call__\<close>: \<open>super_call\<close> is \<^verbatim>\<open>super().__call__\<close>, which allocates the
  object and runs \<^verbatim>\<open>__init__\<close>; it runs only when the class has no entry in
  \<^verbatim>\<open>_instances\<close>.
\<close>

definition SingletonMeta_call ::
  "string \<Rightarrow> (world \<Rightarrow> nat \<times> world) \<Rightarrow> world \<Rightarrow> nat \<times> world"
where
  "SingletonMeta_call cls super_call w =
     (case instances w cls of
        None \<Rightarrow>
          (case super_call w of
             (obj, w1) \<Rightarrow> (obj, w1\<lparr>instances := (instances w1)(cls \<mapsto> obj)\<rparr>))
      | Some obj \<Rightarrow> (obj, w))"

definition PlayerManager_init :: "world \<Rightarrow> nat \<times> world" where
  "PlayerManager_init w =
     (next_manager w,
      w\<lparr>managers := (managers w)(next_manager w := \<lparr>players = []\<rparr>),
        next_manager := Suc (next_manager w)\<rparr>)"

definition PlayerManager_call :: "world \<Rightarrow> nat \<times> world" where
  "PlayerManager_call w = SingletonMeta_call ''PlayerManager'' PlayerManager_init w"

subsection \<open>add_player, edit_player, delete_player\<close>

definition add_player :: "nat \<Rightarrow> nat \<Rightarrow> world \<Rightarrow> (error + unit) \<times> world" where
  "add_player self player w =
     (Inr (), print ''Player added successfully.''
                (set_players self (get_players self w @ [player]) w))"

text \<open>
  \<open>updated_player\<close> is the address of the record that carries the new values; its four
  fields are read before \<^verbatim>\<open>edit\<close> assigns anything.
\<close>

definition edit_player :: "nat \<Rightarrow> int \<Rightarrow> nat \<Rightarrow> world \<Rightarrow> (error + unit) \<times> world" where
  "edit_player self index updated_player w =
     (if 0 \<le> index \<and> index < int (length (get_players self w)) then
        (let target = get_players self w ! nat index;
             up = records w updated_player;
             w1 = w\<lparr>records := (records w)(target :=
                     edit (name up) (team up) (Some (goals up)) (Some (assists up))
                       (records w target))\<rparr>
         in (Inr (), print ''Player updated successfully.'' w1))
      else (Inr (), print ''Invalid index.'' w))"

definition delete_player :: "nat \<Rightarrow> int \<Rightarrow> world \<Rightarrow> (error + unit) \<times> world" where
  "delete_player self index w =
     (if 0 \<le> index \<and> index < int (length (get_players self w)) then
        (let ps = get_players self w;
             w1 = set_players self (take (nat index) ps @ drop (Suc (nat index)) ps) w
         in (Inr (), print ''Player deleted successfully.'' w1))
      else (Inr (), print ''Invalid index.'' w))"

subsection \<open>Statistics\<close>

text \<open>
  \<^verbatim>\<open>statistics.mean\<close> and \<^verbatim>\<open>statistics.median\<close> on a list of integers. \<^verbatim>\<open>mean\<close> adds the
  data up exactly (as a fraction) and divides by their number; \<^verbatim>\<open>median\<close> sorts them and
  takes the middle one, or half the sum of the two middle ones. Both raise
  \<^verbatim>\<open>StatisticsError\<close> on no data. The results are exact rationals here: the last step
  of Python's, the rounding of a value that is not a whole number to the nearest
  \<^verbatim>\<open>float\<close>, is not part of the model.
\<close>

definition mean :: "int list \<Rightarrow> error + rat" where
  "mean data =
     (let total = sum_list data; n = length data
      in if n < 1 then Inl StatisticsError else Inr (of_int total / of_nat n))"

definition median :: "int list \<Rightarrow> error + rat" where
  "median data0 =
     (let data = sort data0; n = length data
      in if n = 0 then Inl StatisticsError
         else if n mod 2 = 1 then Inr (of_int (data ! (n div 2)))
         else (let i = n div 2 in Inr (of_int (data ! (i - 1) + data ! i) / 2)))"

definition calculate_average_goals :: "nat \<Rightarrow> world \<Rightarrow> (error + rat) \<times> world" where
  "calculate_average_goals self w =
     (if get_players self w \<noteq> [] then
        (mean (map (\<lambda>player. goals (records w player)) (get_players self w)), w)
      else (Inr 0, w))"

definition calculate_median_assists :: "nat \<Rightarrow> world \<Rightarrow> (error + rat) \<times> world" where
  "calculate_median_assists self w =
     (if get_players self w \<noteq> [] then
        (median (map (\<lambda>player. assists (records w player)) (get_players self w)), w)
      else (Inr 0, w))"


subsection \<open>filter_by_goal_range\<close>

text \<open>
  \<^verbatim>\<open>list.sort(key=..., reverse=...)\<close>: a stable sort by the key. With \<^verbatim>\<open>reverse\<close> the
  list is reversed, sorted stably and reversed again, which puts the keys in descending
  order and keeps equal keys in their original order. \<open>sort_key\<close> is the library's stable
  insertion sort; the result of a stable sort does not depend on the algorithm.
\<close>

definition py_sort :: "('a \<Rightarrow> int) \<Rightarrow> bool \<Rightarrow> 'a list \<Rightarrow> 'a list" where
  "py_sort key reverse xs = (if reverse then rev (sort_key key (rev xs)) else sort_key key xs)"

definition filter_by_goal_range ::
  "nat \<Rightarrow> int \<Rightarrow> int \<Rightarrow> bool \<Rightarrow> world \<Rightarrow> (error + nat list) \<times> world"
where
  "filter_by_goal_range self min_goals max_goals ascending w =
     (let filtered_players =
            filter (\<lambda>player. min_goals \<le> goals (records w player)
                              \<and> goals (records w player) \<le> max_goals)
              (get_players self w);
          sorted_players = py_sort (\<lambda>x. goals (records w x)) (\<not> ascending) filtered_players
      in (Inr sorted_players, w))"

subsection \<open>Numbers as text: str and int\<close>

abbreviation comma :: char where "comma \<equiv> CHR 0x2C"
abbreviation dquote :: char where "dquote \<equiv> CHR 0x22"
abbreviation CR :: char where "CR \<equiv> CHR 0x0D"
abbreviation LF :: char where "LF \<equiv> CHR 0x0A"

text \<open>\<^verbatim>\<open>str(n)\<close> of an integer: its decimal digits, after a minus sign when it is negative.\<close>

definition digit_char :: "nat \<Rightarrow> char" where
  "digit_char d = ''0123456789'' ! d"

fun digits_of :: "nat \<Rightarrow> string" where
  "digits_of n = (if n < 10 then [digit_char n] else digits_of (n div 10) @ [digit_char (n mod 10)])"

declare digits_of.simps [simp del]

definition str_int :: "int \<Rightarrow> string" where
  "str_int i = (if i < 0 then CHR ''-'' # digits_of (nat (- i)) else digits_of (nat i))"

text \<open>
  \<^verbatim>\<open>int(x)\<close> of a cell. \<^verbatim>\<open>int(None)\<close> raises \<^verbatim>\<open>TypeError\<close>. A text is stripped of
  surrounding white space, may start with one sign, and is then a run of decimal digits
  in which single underscores may stand between digits; anything else raises
  \<^verbatim>\<open>ValueError\<close>. (Characters are the code points below 256.)
\<close>

definition is_space :: "char \<Rightarrow> bool" where
  "is_space c = (c \<in> set [CHR 0x09, CHR 0x0A, CHR 0x0B, CHR 0x0C, CHR 0x0D, CHR 0x1C, CHR 0x1D,
                          CHR 0x1E, CHR 0x1F, CHR 0x20, CHR 0x85, CHR 0xA0])"

definition strip :: "string \<Rightarrow> string" where
  "strip s = rev (dropWhile is_space (rev (dropWhile is_space s)))"

definition is_digit :: "char \<Rightarrow> bool" where
  "is_digit c = (c \<in> set ''0123456789'')"

definition digit_val :: "char \<Rightarrow> nat" where
  "digit_val c = of_char c - 48"

fun int_digits :: "nat \<Rightarrow> string \<Rightarrow> nat option" where
  "int_digits acc [] = Some acc"
| "int_digits acc [c] = (if is_digit c then Some (10 * acc + digit_val c) else None)"
| "int_digits acc (c # d # ds) =
     (if is_digit c then int_digits (10 * acc + digit_val c) (d # ds)
      else if c = CHR ''_'' \<and> is_digit d then int_digits (10 * acc + digit_val d) ds
      else None)"

definition int_of_str :: "string \<Rightarrow> error + int" where
  "int_of_str s =
     (let t = strip s;
          neg = (case t of [] \<Rightarrow> False | c # _ \<Rightarrow> c = CHR ''-'');
          ds = (case t of [] \<Rightarrow> [] | c # r \<Rightarrow> if c = CHR ''-'' \<or> c = CHR ''+'' then r else t)
      in case ds of
           [] \<Rightarrow> Inl ValueError
         | d # r \<Rightarrow>
             if is_digit d then
               (case int_digits (digit_val d) r of
                  None \<Rightarrow> Inl ValueError
                | Some n \<Rightarrow> Inr (if neg then - int n else int n))
             else Inl ValueError)"

fun py_int :: "string option \<Rightarrow> error + int" where
  "py_int None = Inl TypeError"
| "py_int (Some s) = int_of_str s"

subsection \<open>csv.writer and DictWriter, in the default (excel) dialect\<close>

text \<open>
  The dialect: delimiter \<^verbatim>\<open>,\<close>, quote character \<^verbatim>\<open>"\<close> doubled inside a quoted field,
  line terminator \<^verbatim>\<open>\r\n\<close>, minimal quoting, no escape character. A field is quoted
  when it holds the delimiter, the quote character or a character of the line
  terminator; a record that is a single empty field is written as \<^verbatim>\<open>""\<close>.
\<close>

definition needs_quotes :: "char \<Rightarrow> bool" where
  "needs_quotes c = (c = comma \<or> c = dquote \<or> c = CR \<or> c = LF)"

definition doubled :: "string \<Rightarrow> string" where
  "doubled field = concat (map (\<lambda>c. if c = dquote then [dquote, dquote] else [c]) field)"

definition join_append :: "string \<Rightarrow> string" where
  "join_append field =
     (if list_ex needs_quotes field then [dquote] @ doubled field @ [dquote]
      else doubled field)"

fun join_fields :: "string list \<Rightarrow> string" where
  "join_fields [] = []"
| "join_fields [f] = join_append f"
| "join_fields (f # fs) = join_append f @ [comma] @ join_fields fs"

definition writerow :: "string list \<Rightarrow> string" where
  "writerow row = (if row = [[]] then [dquote, dquote] else join_fields row) @ [CR, LF]"

text \<open>A cell of a row: \<^verbatim>\<open>None\<close> is written as the empty text.\<close>

fun cell :: "string option \<Rightarrow> string" where
  "cell None = []"
| "cell (Some s) = s"

definition fieldnames :: "string list" where
  "fieldnames = [''Name'', ''Team'', ''Goals'', ''Assists'']"

definition player_row :: "PlayerRecord \<Rightarrow> string list" where
  "player_row player =
     [cell (name player), cell (team player), str_int (goals player), str_int (assists player)]"

text \<open>
  \<^verbatim>\<open>save_to_csv\<close>: the file is opened for writing (its old content is gone), the header
  is written, then one row per stored record in stored order. Failures of the file
  system are not modelled.
\<close>

definition save_to_csv :: "nat \<Rightarrow> string \<Rightarrow> world \<Rightarrow> (error + unit) \<times> world" where
  "save_to_csv self filename w =
     (let csvfile = writerow fieldnames;
          csvfile = foldl (\<lambda>out player. out @ writerow (player_row (records w player)))
                      csvfile (get_players self w)
      in (Inr (), w\<lparr>files := (files w)(filename \<mapsto> csvfile)\<rparr>))"

subsection \<open>csv.reader, in the default (excel) dialect\<close>

text \<open>
  A file opened with \<^verbatim>\<open>newline=''\<close> is read line by line; a line ends after \<^verbatim>\<open>\n\<close>,
  after \<^verbatim>\<open>\r\n\<close> or after a \<^verbatim>\<open>\r\<close> that no \<^verbatim>\<open>\n\<close> follows, and keeps its ending.
\<close>

fun split_lines :: "string \<Rightarrow> string \<Rightarrow> string list" where
  "split_lines cur [] = (if cur = [] then [] else [cur])"
| "split_lines cur [c] = [cur @ [c]]"
| "split_lines cur (c # d # ds) =
     (if c = LF then (cur @ [c]) # split_lines [] (d # ds)
      else if c = CR \<and> d = LF then (cur @ [c, d]) # split_lines [] ds
      else if c = CR then (cur @ [c]) # split_lines [] (d # ds)
      else split_lines (cur @ [c]) (d # ds))"

text \<open>
  The reader's state machine (\<^verbatim>\<open>parse_process_char\<close> of the \<^verbatim>\<open>_csv\<close> module). The
  character \<open>None\<close> is the end-of-line mark that the reader feeds after every line. The
  states that only an escape character reaches are left out: the dialect has none. The
  dialect is not strict, so the one failure is a character after a line end inside a line.
  The reader's limit on the length of a field (\<^verbatim>\<open>csv.field_size_limit\<close>) is not modelled.
\<close>

datatype parser_state =
  START_RECORD | START_FIELD | IN_FIELD | IN_QUOTED_FIELD | QUOTE_IN_QUOTED_FIELD | EAT_CRNL

record reader =
  state :: parser_state
  row_fields :: "string list"
  field :: string

definition parse_save_field :: "reader \<Rightarrow> reader" where
  "parse_save_field self = self\<lparr>row_fields := row_fields self @ [field self], field := []\<rparr>"

definition parse_add_char :: "reader \<Rightarrow> char \<Rightarrow> reader" where
  "parse_add_char self c = self\<lparr>field := field self @ [c]\<rparr>"

definition end_of_line :: "reader \<Rightarrow> char option \<Rightarrow> reader" where
  "end_of_line self c =
     (parse_save_field self)\<lparr>state := (if c = None then START_RECORD else EAT_CRNL)\<rparr>"

definition start_field :: "reader \<Rightarrow> char option \<Rightarrow> error + reader" where
  "start_field self c =
     (if c = Some LF \<or> c = Some CR \<or> c = None then Inr (end_of_line self c)
      else if c = Some dquote then Inr (self\<lparr>state := IN_QUOTED_FIELD\<rparr>)
      else if c = Some comma then Inr (parse_save_field self)
      else Inr ((parse_add_char self (the c))\<lparr>state := IN_FIELD\<rparr>))"

definition parse_process_char :: "reader \<Rightarrow> char option \<Rightarrow> error + reader" where
  "parse_process_char self c =
     (case state self of
        START_RECORD \<Rightarrow>
          (if c = None then Inr self
           else if c = Some LF \<or> c = Some CR then Inr (self\<lparr>state := EAT_CRNL\<rparr>)
           else start_field (self\<lparr>state := START_FIELD\<rparr>) c)
      | START_FIELD \<Rightarrow> start_field self c
      | IN_FIELD \<Rightarrow>
          (if c = Some LF \<or> c = Some CR \<or> c = None then Inr (end_of_line self c)
           else if c = Some comma then Inr ((parse_save_field self)\<lparr>state := START_FIELD\<rparr>)
           else Inr (parse_add_char self (the c)))
      | IN_QUOTED_FIELD \<Rightarrow>
          (if c = None then Inr self
           else if c = Some dquote then Inr (self\<lparr>state := QUOTE_IN_QUOTED_FIELD\<rparr>)
           else Inr (parse_add_char self (the c)))
      | QUOTE_IN_QUOTED_FIELD \<Rightarrow>
          (if c = Some dquote then Inr ((parse_add_char self dquote)\<lparr>state := IN_QUOTED_FIELD\<rparr>)
           else if c = Some comma then Inr ((parse_save_field self)\<lparr>state := START_FIELD\<rparr>)
           else if c = Some LF \<or> c = Some CR \<or> c = None then Inr (end_of_line self c)
           else Inr ((parse_add_char self (the c))\<lparr>state := IN_FIELD\<rparr>))
      | EAT_CRNL \<Rightarrow>
          (if c = Some LF \<or> c = Some CR then Inr self
           else if c = None then Inr (self\<lparr>state := START_RECORD\<rparr>)
           else Inl CsvError))"

text \<open>The characters of one line, fed in order.\<close>

fun feed_line :: "reader \<Rightarrow> string \<Rightarrow> error + reader" where
  "feed_line self [] = Inr self"
| "feed_line self (c # cs) =
     (case parse_process_char self (Some c) of
        Inl e \<Rightarrow> Inl e
      | Inr self1 \<Rightarrow> feed_line self1 cs)"

text \<open>
  What a call of \<^verbatim>\<open>next\<close> gives: the end of the iteration, an exception, or a value
  together with the lines that are still unread.
\<close>

datatype 'a step = StopIteration | Raised error | Yield 'a "string list"

text \<open>
  \<^verbatim>\<open>Reader_iternext\<close>: lines are read until a record is complete. At the end of the
  input, a field that was begun is still given out as a last record.
\<close>

fun read_record :: "reader \<Rightarrow> string list \<Rightarrow> string list step" where
  "read_record self [] =
     (if field self \<noteq> [] \<or> state self = IN_QUOTED_FIELD
      then Yield (row_fields (parse_save_field self)) []
      else StopIteration)"
| "read_record self (line # rest) =
     (case feed_line self line of
        Inl e \<Rightarrow> Raised e
      | Inr self1 \<Rightarrow>
          (case parse_process_char self1 None of
             Inl e \<Rightarrow> Raised e
           | Inr self2 \<Rightarrow>
               if state self2 \<noteq> START_RECORD then read_record self2 rest
               else Yield (row_fields self2) rest))"

definition parse_reset :: reader where
  "parse_reset = \<lparr>state = START_RECORD, row_fields = [], field = []\<rparr>"

definition Reader_iternext :: "string list \<Rightarrow> string list step" where
  "Reader_iternext lines = read_record parse_reset lines"

lemma read_record_shorter:
  "read_record self lines = Yield row rest \<Longrightarrow>
     length rest \<le> length lines \<and> (lines \<noteq> [] \<longrightarrow> length rest < length lines)"
proof (induction lines arbitrary: self)
  case Nil
  then show ?case by (simp split: if_splits)
next
  case (Cons line lines)
  from Cons.prems show ?case
    by (auto split: sum.splits if_splits dest!: Cons.IH)
qed

lemma Reader_iternext_shorter:
  "Reader_iternext lines = Yield row rest \<Longrightarrow> length rest < length lines"
proof (cases lines)
  case Nil
  assume "Reader_iternext lines = Yield row rest"
  with Nil show ?thesis by (simp add: Reader_iternext_def parse_reset_def)
next
  case (Cons l ls)
  assume "Reader_iternext lines = Yield row rest"
  with Cons show ?thesis
    using read_record_shorter[of parse_reset lines row rest] by (simp add: Reader_iternext_def)
qed

subsection \<open>csv.DictReader and load_from_csv\<close>

text \<open>
  \<^verbatim>\<open>DictReader.__next__\<close> takes the next record of the reader, passing over records
  without any field (blank lines).
\<close>

function next_row :: "string list \<Rightarrow> string list step" where
  "next_row lines =
     (case Reader_iternext lines of
        StopIteration \<Rightarrow> StopIteration
      | Raised e \<Rightarrow> Raised e
      | Yield row rest \<Rightarrow> if row = [] then next_row rest else Yield row rest)"
  by pat_completeness auto
termination
  by (relation "measure length") (auto dest: Reader_iternext_shorter)

declare next_row.simps [simp del]

lemma next_row_shorter:
  "next_row lines = Yield row rest \<Longrightarrow> length rest < length lines"
proof (induction lines rule: next_row.induct)
  case (1 lines)
  show ?case
  proof (cases "Reader_iternext lines")
    case StopIteration
    with "1.prems" show ?thesis by (simp add: next_row.simps[of lines])
  next
    case (Raised e)
    with "1.prems" show ?thesis by (simp add: next_row.simps[of lines])
  next
    case (Yield r ls)
    show ?thesis
    proof (cases "r = []")
      case True
      with Yield "1.prems" have "next_row ls = Yield row rest"
        by (simp add: next_row.simps[of lines])
      with "1.IH"[OF Yield True] have "length rest < length ls" by simp
      with Reader_iternext_shorter[OF Yield] show ?thesis by simp
    next
      case False
      with Yield "1.prems" have "rest = ls" by (simp add: next_row.simps[of lines])
      with Reader_iternext_shorter[OF Yield] show ?thesis by simp
    qed
  qed
qed

text \<open>
  The row as a dictionary: the header's names paired with the row's cells, a later
  name replacing an equal earlier one; the names that the row has no cell for are given
  \<^verbatim>\<open>None\<close>. (Surplus cells go under the key \<^verbatim>\<open>None\<close>, which no lookup by name reads.)
\<close>

definition row_dict :: "string list \<Rightarrow> string list \<Rightarrow> (string \<rightharpoonup> string option)" where
  "row_dict names row =
     (let d = foldl (\<lambda>d (k, v). d(k \<mapsto> Some v)) Map.empty (zip names row)
      in foldl (\<lambda>d k. d(k \<mapsto> None)) d (drop (length row) names))"

definition DictReader_next ::
  "string list \<Rightarrow> string list \<Rightarrow> (string \<rightharpoonup> string option) step"
where
  "DictReader_next names lines =
     (case next_row lines of
        StopIteration \<Rightarrow> StopIteration
      | Raised e \<Rightarrow> Raised e
      | Yield row rest \<Rightarrow> Yield (row_dict names row) rest)"

text \<open>\<^verbatim>\<open>row[key]\<close>: a missing key raises \<^verbatim>\<open>KeyError\<close>.\<close>

definition getitem :: "(string \<rightharpoonup> string option) \<Rightarrow> string \<Rightarrow> error + string option" where
  "getitem row key = (case row key of None \<Rightarrow> Inl (KeyError key) | Some v \<Rightarrow> Inr v)"

text \<open>
  The arguments of \<^verbatim>\<open>PlayerRecord(...)\<close> in the loop of \<^verbatim>\<open>load_from_csv\<close>, evaluated
  from left to right; the first exception ends the evaluation.
\<close>

definition row_player :: "(string \<rightharpoonup> string option) \<Rightarrow> error + PlayerRecord" where
  "row_player row =
     (case getitem row ''Name'' of Inl e \<Rightarrow> Inl e | Inr nm \<Rightarrow>
      case getitem row ''Team'' of Inl e \<Rightarrow> Inl e | Inr tm \<Rightarrow>
      case getitem row ''Goals'' of Inl e \<Rightarrow> Inl e | Inr g \<Rightarrow>
      case py_int g of Inl e \<Rightarrow> Inl e | Inr gs \<Rightarrow>
      case getitem row ''Assists'' of Inl e \<Rightarrow> Inl e | Inr a \<Rightarrow>
      case py_int a of Inl e \<Rightarrow> Inl e | Inr asts \<Rightarrow>
        Inr \<lparr>name = nm, team = tm, goals = gs, assists = asts\<rparr>)"

text \<open>The loop \<^verbatim>\<open>for row in reader\<close>: each row becomes a new record, appended to the list.\<close>

function load_rows ::
  "nat \<Rightarrow> string list \<Rightarrow> string list \<Rightarrow> world \<Rightarrow> (error + unit) \<times> world"
where
  "load_rows self names lines w =
     (case DictReader_next names lines of
        StopIteration \<Rightarrow> (Inr (), w)
      | Raised e \<Rightarrow> (Inl e, w)
      | Yield row rest \<Rightarrow>
          (case row_player row of
             Inl e \<Rightarrow> (Inl e, w)
           | Inr r \<Rightarrow>
               (case new_PlayerRecord r w of
                  (player, w1) \<Rightarrow>
                    load_rows self names rest
                      (set_players self (get_players self w1 @ [player]) w1))))"
  by pat_completeness auto
termination
  by (relation "measure (\<lambda>(self, names, lines, w). length lines)")
     (auto simp: DictReader_next_def split: step.splits dest: next_row_shorter)

declare load_rows.simps [simp del]

text \<open>
  \<^verbatim>\<open>load_from_csv\<close>: the list is emptied first; then the file is opened, its first record
  becomes the header's names, and the rows are read. An exception leaves the list as far
  as it was filled.
\<close>

definition load_from_csv :: "nat \<Rightarrow> string \<Rightarrow> world \<Rightarrow> (error + unit) \<times> world" where
  "load_from_csv self filename w =
     (let w0 = set_players self [] w
      in case files w0 filename of
           None \<Rightarrow> (Inl FileNotFoundError, w0)
         | Some csvfile \<Rightarrow>
             (case Reader_iternext (split_lines [] csvfile) of
                StopIteration \<Rightarrow> (Inr (), w0)
              | Raised e \<Rightarrow> (Inl e, w0)
              | Yield names rest \<Rightarrow> load_rows self names rest w0))"




subsection \<open>Example worlds\<close>

text \<open>
  The spec's scenario store, as the program's own calls build it: one manager holding the
  records of Alice and Bob, and (at address 2) a record that carries the new values of an
  edit.
\<close>

definition blank_record :: PlayerRecord where
  "blank_record = \<lparr>name = None, team = None, goals = 0, assists = 0\<rparr>"

definition initial_world :: world where
  "initial_world =
     \<lparr>records = (\<lambda>_. blank_record), next_record = 0,
      managers = (\<lambda>_. \<lparr>players = []\<rparr>), next_manager = 0,
      instances = Map.empty, files = Map.empty, stdout = []\<rparr>"

definition alice :: PlayerRecord where
  "alice = \<lparr>name = Some ''Alice'', team = Some ''Reds'', goals = 3, assists = 1\<rparr>"

definition bob :: PlayerRecord where
  "bob = \<lparr>name = Some ''Bob'', team = Some ''Blues'', goals = 5, assists = 2\<rparr>"

definition zed :: PlayerRecord where
  "zed = \<lparr>name = Some ''Zed'', team = Some [], goals = 0, assists = 7\<rparr>"

definition scenario_world :: world where
  "scenario_world =
     \<lparr>records = (\<lambda>_. blank_record)(0 := alice, 1 := bob, 2 := zed), next_record = 3,
      managers = (\<lambda>_. \<lparr>players = []\<rparr>)(0 := \<lparr>players = [0, 1]\<rparr>), next_manager = 1,
      instances = [''PlayerManager'' \<mapsto> 0], files = Map.empty, stdout = []\<rparr>"

text \<open>
  A store that holds one record object twice: \<^verbatim>\<open>add_player(p)\<close> called twice with the
  same \<^verbatim>\<open>p\<close> on an empty manager.
\<close>

definition aliased_world :: world where
  "aliased_world =
     snd (add_player 0 0 (snd (add_player 0 0
       (scenario_world\<lparr>managers := (\<lambda>_. \<lparr>players = []\<rparr>)\<rparr>))))"










section \<open>Properties\<close>

subsection \<open>Reading and writing the store\<close>

lemma get_set_players [simp]: "get_players self (set_players self ps w) = ps"
  by (simp add: get_players_def set_players_def)

lemma get_players_print [simp]: "get_players self (print s w) = get_players self w"
  by (simp add: get_players_def print_def)

lemma records_print [simp]: "records (print s w) = records w"
  by (simp add: print_def)

lemma records_set_players [simp]: "records (set_players self ps w) = records w"
  by (simp add: set_players_def)

lemma get_players_records_update [simp]:
  "get_players self (w\<lparr>records := r\<rparr>) = get_players self w"
  by (simp add: get_players_def)

lemma stdout_print [simp]: "stdout (print s w) = stdout w @ [s]"
  by (simp add: print_def)

lemma contents_print [simp]: "contents self (print s w) = contents self w"
  by (simp add: contents_def)

subsection \<open>Invalid indices\<close>

text \<open>
  C2 (as the code has it). For an index outside \<open>[0, length)\<close>, \<^verbatim>\<open>edit_player\<close> and
  \<^verbatim>\<open>delete_player\<close> raise nothing: they return normally after printing
  \<^verbatim>\<open>Invalid index.\<close>, and the world differs from the one before only by that line of
  output, so the stored sequence and every record are unchanged.
\<close>

theorem invalid_index_prints_and_returns:
  assumes "\<not> (0 \<le> index \<and> index < int (length (get_players self w)))"
  shows "edit_player self index up w = (Inr (), w\<lparr>stdout := stdout w @ [''Invalid index.'']\<rparr>) \<and>
         delete_player self index w = (Inr (), w\<lparr>stdout := stdout w @ [''Invalid index.'']\<rparr>) \<and>
         get_players self (snd (edit_player self index up w)) = get_players self w \<and>
         get_players self (snd (delete_player self index w)) = get_players self w \<and>
         records (snd (edit_player self index up w)) = records w \<and>
         records (snd (delete_player self index w)) = records w"
proof -
  from assms have out: "(0 \<le> index \<and> index < int (length (get_players self w))) = False"
    by simp
  have e: "edit_player self index up w = (Inr (), print ''Invalid index.'' w)"
    by (simp add: edit_player_def out)
  have d: "delete_player self index w = (Inr (), print ''Invalid index.'' w)"
    by (simp add: delete_player_def out)
  show ?thesis
    unfolding e d by (simp add: print_def get_players_def)
qed

theorem invalid_index_witness:
  "\<not> (0 \<le> (5::int) \<and> 5 < int (length (get_players 0 scenario_world))) \<and>
   delete_player 0 5 scenario_world
     = (Inr (), scenario_world\<lparr>stdout := stdout scenario_world @ [''Invalid index.'']\<rparr>) \<and>
   length (get_players 0 (snd (delete_player 0 5 scenario_world))) = 2"
proof -
  have len: "get_players 0 scenario_world = [0, 1]"
    by (simp add: get_players_def scenario_world_def)
  have h5: "\<not> (0 \<le> (5::int) \<and> 5 < int (length (get_players 0 scenario_world)))"
    by (simp add: len)
  show ?thesis
    using invalid_index_prints_and_returns[OF h5, of 2] h5 len
    by (simp add: get_players_def)
qed

text \<open>
  The spec's scenario: \<^verbatim>\<open>delete_player(5)\<close> on the two-element store raises no
  \<^verbatim>\<open>IndexError\<close>; the call returns and the message is on the console.
\<close>

theorem delete_player_out_of_range_does_not_raise:
  "fst (delete_player 0 5 scenario_world) = Inr () \<and>
   fst (delete_player 0 5 scenario_world) \<noteq> Inl IndexError \<and>
   stdout (snd (delete_player 0 5 scenario_world)) = [''Invalid index.'']"
  by (simp add: delete_player_def get_players_def scenario_world_def print_def)

subsection \<open>Editing a record in place\<close>

lemma edit_fields:
  "name (edit nm tm gs asts r) = (if truthy nm then nm else name r)"
  "team (edit nm tm gs asts r) = (if truthy tm then tm else team r)"
  "goals (edit nm tm gs asts r) = (case gs of Some g \<Rightarrow> g | None \<Rightarrow> goals r)"
  "assists (edit nm tm gs asts r) = (case asts of Some a \<Rightarrow> a | None \<Rightarrow> assists r)"
  by (simp_all add: edit_def Let_def split: option.splits)

lemma edit_player_valid:
  assumes "0 \<le> index" and "index < int (length (get_players self w))"
  shows "edit_player self index up w =
     (Inr (), print ''Player updated successfully.''
        (w\<lparr>records := (records w)(get_players self w ! nat index :=
             edit (name (records w up)) (team (records w up))
               (Some (goals (records w up))) (Some (assists (records w up)))
               (records w (get_players self w ! nat index)))\<rparr>))"
  using assms by (simp add: edit_player_def Let_def)

text \<open>
  C3 (as the code has it). \<^verbatim>\<open>PlayerRecord.edit\<close> overwrites the name and the team only
  with a non-empty text, and the goals and the assists with whatever number is given,
  zero included; a field that is not given keeps its value. For a valid index,
  \<^verbatim>\<open>edit_player\<close> raises nothing, leaves the store's sequence of objects as it is (the
  same objects in the same order: the record at the index is changed in place), gives the
  object at the index the given record's values in that way, and leaves every other
  object unchanged. So the record at an index \<open>j\<close> is unchanged whenever that index
  holds another object than the edited index does.
\<close>

theorem edit_player_mutates_only_the_target_object:
  assumes "0 \<le> index" and "index < int (length (get_players self w))"
  shows
    "name (edit nm tm gs asts r) = (if nm = None \<or> nm = Some [] then name r else nm) \<and>
     team (edit nm tm gs asts r) = (if tm = None \<or> tm = Some [] then team r else tm) \<and>
     goals (edit nm tm None asts r) = goals r \<and>
     goals (edit nm tm (Some g) asts r) = g \<and>
     assists (edit nm tm gs None r) = assists r \<and>
     assists (edit nm tm gs (Some a) r) = a \<and>
     fst (edit_player self index up w) = Inr () \<and>
     get_players self (snd (edit_player self index up w)) = get_players self w \<and>
     records (snd (edit_player self index up w)) (get_players self w ! nat index) =
       edit (name (records w up)) (team (records w up))
         (Some (goals (records w up))) (Some (assists (records w up)))
         (records w (get_players self w ! nat index)) \<and>
     (\<forall>addr. addr \<noteq> get_players self w ! nat index \<longrightarrow>
        records (snd (edit_player self index up w)) addr = records w addr) \<and>
     (\<forall>j. get_players self w ! j \<noteq> get_players self w ! nat index \<longrightarrow>
        records (snd (edit_player self index up w)) (get_players self w ! j)
          = records w (get_players self w ! j)) \<and>
     (distinct (get_players self w) \<longrightarrow>
        (\<forall>j < length (get_players self w). j \<noteq> nat index \<longrightarrow>
           records (snd (edit_player self index up w)) (get_players self w ! j)
             = records w (get_players self w ! j)))"
proof -
  have valid: "nat index < length (get_players self w)"
    using assms by simp
  have t: "truthy nm = (\<not> (nm = None \<or> nm = Some []))" for nm
    by (cases nm) simp_all
  have fields: "name (edit nm tm gs asts r) = (if nm = None \<or> nm = Some [] then name r else nm)"
    "team (edit nm tm gs asts r) = (if tm = None \<or> tm = Some [] then team r else tm)"
    by (simp_all add: edit_fields t)
  have frame: "addr \<noteq> get_players self w ! nat index \<Longrightarrow>
      records (snd (edit_player self index up w)) addr = records w addr" for addr
    by (simp add: edit_player_valid[OF assms])
  have other: "distinct (get_players self w) \<Longrightarrow> j < length (get_players self w) \<Longrightarrow>
      j \<noteq> nat index \<Longrightarrow> get_players self w ! j \<noteq> get_players self w ! nat index" for j
    using valid by (simp add: nth_eq_iff_index_eq)
  show ?thesis
    using fields frame other
    by (simp add: edit_player_valid[OF assms] edit_fields)
qed

theorem edit_player_witness:
  "(0::int) \<le> 1 \<and> 1 < int (length (get_players 0 scenario_world)) \<and>
   get_players 0 (snd (edit_player 0 1 2 scenario_world)) = [0, 1] \<and>
   records (snd (edit_player 0 1 2 scenario_world)) 1
     = \<lparr>name = Some ''Zed'', team = Some ''Blues'', goals = 0, assists = 7\<rparr> \<and>
   records (snd (edit_player 0 1 2 scenario_world)) 0 = alice"
proof -
  have ps: "get_players 0 scenario_world = [0, 1]"
    by (simp add: get_players_def scenario_world_def)
  have h: "(0::int) \<le> 1" "1 < int (length (get_players 0 scenario_world))"
    by (simp_all add: ps)
  have recs: "records scenario_world 0 = alice" "records scenario_world (Suc 0) = bob"
    "records scenario_world 2 = zed"
    by (simp_all add: scenario_world_def)
  show ?thesis
    using edit_player_mutates_only_the_target_object[OF h, where up = 2 and nm = None
        and tm = None and gs = None and asts = None and r = blank_record and g = 0 and a = 0]
    by (simp add: ps recs edit_def alice_def bob_def zed_def)
qed

text \<open>
  Where the claim, as stated, fails: in a store that holds one object at two indices,
  editing index 0 changes the record at index 1 as well.
\<close>

theorem edit_player_changes_an_aliased_index:
  "get_players 0 aliased_world = [0, 0] \<and>
   records (snd (edit_player 0 0 2 aliased_world)) (get_players 0 aliased_world ! 1)
     \<noteq> records aliased_world (get_players 0 aliased_world ! 1)"
  by (simp add: aliased_world_def add_player_def edit_player_def get_players_def
      set_players_def print_def scenario_world_def edit_def alice_def zed_def)

subsection \<open>Adding and removing\<close>

lemma delete_player_valid:
  assumes "0 \<le> index" and "index < int (length (get_players self w))"
  shows "delete_player self index w =
     (Inr (), print ''Player deleted successfully.''
        (set_players self (take (nat index) (get_players self w)
                            @ drop (Suc (nat index)) (get_players self w)) w))"
  using assms by (simp add: delete_player_def Let_def)

text \<open>
  C9. \<^verbatim>\<open>add_player\<close> appends the record at the end: the sequence grows by exactly one
  and the earlier records keep their positions. \<^verbatim>\<open>delete_player\<close> at the old length
  then gives back the sequence as it was, in content and order; no record is changed by
  either call, and neither raises.
\<close>

theorem add_then_delete_restores_the_sequence:
  "fst (add_player self p w) = Inr () \<and>
   get_players self (snd (add_player self p w)) = get_players self w @ [p] \<and>
   length (get_players self (snd (add_player self p w))) = length (get_players self w) + 1 \<and>
   (\<forall>j < length (get_players self w).
      get_players self (snd (add_player self p w)) ! j = get_players self w ! j) \<and>
   records (snd (add_player self p w)) = records w \<and>
   fst (delete_player self (int (length (get_players self w))) (snd (add_player self p w)))
     = Inr () \<and>
   get_players self
     (snd (delete_player self (int (length (get_players self w))) (snd (add_player self p w))))
     = get_players self w \<and>
   contents self
     (snd (delete_player self (int (length (get_players self w))) (snd (add_player self p w))))
     = contents self w"
proof -
  let ?w1 = "snd (add_player self p w)"
  have ps1: "get_players self ?w1 = get_players self w @ [p]"
    by (simp add: add_player_def)
  have r1: "records ?w1 = records w"
    by (simp add: add_player_def)
  have v: "0 \<le> int (length (get_players self w))"
    "int (length (get_players self w)) < int (length (get_players self ?w1))"
    by (simp_all add: ps1)
  have d: "get_players self (snd (delete_player self (int (length (get_players self w))) ?w1))
      = get_players self w"
    by (simp add: delete_player_valid[OF v] ps1)
  have rd: "records (snd (delete_player self (int (length (get_players self w))) ?w1))
      = records w"
    by (simp add: delete_player_valid[OF v] r1)
  show ?thesis
    using ps1 r1 d rd
    by (simp add: delete_player_valid[OF v] contents_def nth_append) (simp add: add_player_def)
qed

theorem add_then_delete_witness:
  "get_players 0 (snd (add_player 0 2 scenario_world)) = [0, 1, 2] \<and>
   get_players 0 (snd (delete_player 0 2 (snd (add_player 0 2 scenario_world)))) = [0, 1] \<and>
   contents 0 (snd (delete_player 0 2 (snd (add_player 0 2 scenario_world)))) = [alice, bob]"
proof -
  have ps: "get_players 0 scenario_world = [0, 1]"
    by (simp add: get_players_def scenario_world_def)
  have c: "contents 0 scenario_world = [alice, bob]"
    by (simp add: contents_def get_players_def scenario_world_def)
  show ?thesis
    using add_then_delete_restores_the_sequence[of 0 2 scenario_world]
    by (simp add: ps c)
qed

subsection \<open>The mean of the goals and the median of the assists\<close>






lemma py_sort_mset: "mset (py_sort key r xs) = mset xs"
  by (simp add: py_sort_def)

lemma py_sort_stable: "filter (\<lambda>y. key y = k) (py_sort key r xs) = filter (\<lambda>y. key y = k) xs"
  by (simp add: py_sort_def sort_key_stable rev_filter[symmetric])

lemma py_sort_ascending: "sorted (map key (py_sort key False xs))"
  by (simp add: py_sort_def)

lemma py_sort_descending: "sorted (rev (map key (py_sort key True xs)))"
  by (simp add: py_sort_def rev_map[symmetric])


lemma scenario_players: "get_players 0 scenario_world = [0, 1]"
  by (simp add: get_players_def scenario_world_def)






subsection \<open>Filtering by a range of goals\<close>

text \<open>
  C6. \<^verbatim>\<open>filter_by_goal_range\<close> raises nothing and leaves the world, and with it the
  stored sequence, as it was. The list it returns holds exactly the stored records whose
  goals lie in \<open>[min_goals, max_goals]\<close> (each as often as the store holds it), in
  ascending order of goals when \<open>ascending\<close> is set and in descending order otherwise;
  records with equal goals stand in the order they have in the store. When
  \<open>max_goals < min_goals\<close> the list is empty.
\<close>

theorem filter_by_goal_range_filters_and_sorts:
  "snd (filter_by_goal_range self lo hi asc w) = w \<and>
   (\<exists>res. fst (filter_by_goal_range self lo hi asc w) = Inr res \<and>
      mset res = mset (filter (\<lambda>p. lo \<le> goals (records w p) \<and> goals (records w p) \<le> hi)
                        (get_players self w)) \<and>
      (if asc then sorted (map (\<lambda>p. goals (records w p)) res)
       else sorted (rev (map (\<lambda>p. goals (records w p)) res))) \<and>
      (\<forall>k. filter (\<lambda>p. goals (records w p) = k) res
             = filter (\<lambda>p. goals (records w p) = k)
                 (filter (\<lambda>p. lo \<le> goals (records w p) \<and> goals (records w p) \<le> hi)
                    (get_players self w))) \<and>
      (hi < lo \<longrightarrow> res = []))"
proof -
  let ?inr = "\<lambda>p. lo \<le> goals (records w p) \<and> goals (records w p) \<le> hi"
  let ?key = "\<lambda>p. goals (records w p)"
  let ?res = "py_sort ?key (\<not> asc) (filter ?inr (get_players self w))"
  have r: "filter_by_goal_range self lo hi asc w = (Inr ?res, w)"
    by (simp add: filter_by_goal_range_def Let_def)
  have srt: "if asc then sorted (map ?key ?res) else sorted (rev (map ?key ?res))"
    using py_sort_ascending[of ?key] py_sort_descending[of ?key] by (cases asc) simp_all
  have empty: "hi < lo \<Longrightarrow> filter ?inr (get_players self w) = []"
    by (auto simp: filter_empty_conv)
  have e2: "hi < lo \<Longrightarrow> ?res = []"
    using empty by (simp add: py_sort_def)
  show ?thesis
    unfolding r using srt e2
    by (simp add: py_sort_mset py_sort_stable)
qed

theorem filter_by_goal_range_witness:
  "filter_by_goal_range 0 3 5 False scenario_world = (Inr [1, 0], scenario_world) \<and>
   filter_by_goal_range 0 4 5 True scenario_world = (Inr [1], scenario_world) \<and>
   filter_by_goal_range 0 5 3 True scenario_world = (Inr [], scenario_world)"
proof -
  have g: "goals (records scenario_world 0) = 3" "goals (records scenario_world (Suc 0)) = 5"
    by (simp_all add: scenario_world_def alice_def bob_def)
  show ?thesis
    using filter_by_goal_range_filters_and_sorts[of 0 5 3 True scenario_world]
    by (simp add: filter_by_goal_range_def Let_def scenario_players py_sort_def g)
qed

subsection \<open>Decimal text\<close>

lemma digit_char_props:
  assumes "d < 10"
  shows "is_digit (digit_char d)" and "digit_val (digit_char d) = d"
    and "\<not> is_space (digit_char d)" and "\<not> needs_quotes (digit_char d)"
    and "digit_char d \<noteq> CHR ''-''" and "digit_char d \<noteq> CHR ''+''"
proof -
  from assms have "d = 0 \<or> d = 1 \<or> d = 2 \<or> d = 3 \<or> d = 4 \<or> d = 5 \<or> d = 6 \<or> d = 7
      \<or> d = 8 \<or> d = 9"
    by arith
  then have "is_digit (digit_char d) \<and> digit_val (digit_char d) = d \<and>
      \<not> is_space (digit_char d) \<and> \<not> needs_quotes (digit_char d) \<and>
      digit_char d \<noteq> CHR ''-'' \<and> digit_char d \<noteq> CHR ''+''"
    by (elim disjE)
      (simp_all add: digit_char_def is_digit_def digit_val_def is_space_def needs_quotes_def)
  then show "is_digit (digit_char d)" and "digit_val (digit_char d) = d"
    and "\<not> is_space (digit_char d)" and "\<not> needs_quotes (digit_char d)"
    and "digit_char d \<noteq> CHR ''-''" and "digit_char d \<noteq> CHR ''+''"
    by simp_all
qed

lemma digits_of_subset: "set (digits_of n) \<subseteq> digit_char ` {..<10}"
proof (induction n rule: digits_of.induct)
  case (1 n)
  show ?case
  proof (cases "n < 10")
    case True
    then show ?thesis by (simp add: digits_of.simps[of n])
  next
    case False
    have "n mod 10 < 10" by simp
    with False "1.IH" show ?thesis
      by (simp add: digits_of.simps[of n])
  qed
qed

lemma digits_of_all_digits: "c \<in> set (digits_of n) \<Longrightarrow> \<exists>d < 10. c = digit_char d"
  using digits_of_subset[of n] by auto













lemma str_int_plain: "c \<in> set (str_int i) \<Longrightarrow> \<not> needs_quotes c"
proof -
  assume c: "c \<in> set (str_int i)"
  have dg: "c \<in> set (digits_of n) \<Longrightarrow> \<not> needs_quotes c" for n
    using digits_of_all_digits[of c n] digit_char_props(4) by blast
  have m: "\<not> needs_quotes CHR ''-''" by (simp add: needs_quotes_def)
  from c have "c = CHR ''-'' \<or> c \<in> set (digits_of (nat (- i))) \<or> c \<in> set (digits_of (nat i))"
    by (auto simp: str_int_def split: if_splits)
  with dg m show ?thesis by blast
qed

subsection \<open>Reading back a written row\<close>




lemma split_lines_CR_LF: "split_lines cur (CR # LF # s) = (cur @ [CR, LF]) # split_lines [] s"
  by simp

lemma split_lines_CR:
  "(\<And>t. s \<noteq> LF # t) \<Longrightarrow> split_lines cur (CR # s) = (cur @ [CR]) # split_lines [] s"
  by (cases s) auto




lemma state_parse_add_char [simp]: "state (parse_add_char r c) = state r"
  by (simp add: parse_add_char_def)


lemma doubled_simps [simp]:
  "doubled [] = []"
  "doubled (dquote # f) = dquote # dquote # doubled f"
  "c \<noteq> dquote \<Longrightarrow> doubled (c # f) = c # doubled f"
  by (simp_all add: doubled_def)









lemma join_append_empty [simp]: "join_append [] = []"
  by (simp add: join_append_def)










subsection \<open>Saving and loading\<close>

lemma foldl_append_rows: "foldl (\<lambda>out x. out @ g x) acc xs = acc @ concat (map g xs)"
  by (induction xs arbitrary: acc) simp_all

lemma save_to_csv_result:
  "save_to_csv self filename w =
     (Inr (), w\<lparr>files := (files w)(filename \<mapsto>
        writerow fieldnames @ concat (map (\<lambda>r. writerow (player_row r)) (contents self w)))\<rparr>)"
  by (simp add: save_to_csv_def Let_def foldl_append_rows contents_def comp_def)

lemma contents_set_players_Nil [simp]: "contents self (set_players self [] w) = []"
  by (simp add: contents_def)

lemma files_set_players [simp]: "files (set_players self ps w) = files w"
  by (simp add: set_players_def)

lemma next_record_set_players [simp]: "next_record (set_players self ps w) = next_record w"
  by (simp add: set_players_def)




subsection \<open>The exceptions of a load\<close>




















subsection \<open>The single manager\<close>

lemma instances_print [simp]: "instances (print s w) = instances w"
  by (simp add: print_def)

lemma instances_set_players [simp]: "instances (set_players self ps w) = instances w"
  by (simp add: set_players_def)

lemma instances_load_rows: "instances (snd (load_rows self names lines w)) = instances w"
proof (induction self names lines w rule: load_rows.induct)
  case (1 self names lines w)
  show ?case
  proof (cases "DictReader_next names lines")
    case StopIteration
    then show ?thesis by (simp add: load_rows.simps[of self names lines w])
  next
    case (Raised e)
    then show ?thesis by (simp add: load_rows.simps[of self names lines w])
  next
    case (Yield row rest)
    show ?thesis
    proof (cases "row_player row")
      case (Inl e)
      with Yield show ?thesis by (simp add: load_rows.simps[of self names lines w])
    next
      case (Inr r)
      obtain player w1 where new: "new_PlayerRecord r w = (player, w1)"
        by (cases "new_PlayerRecord r w")
      then have i1: "instances w1 = instances w"
        by (auto simp: new_PlayerRecord_def)
      from "1.IH"[OF Yield Inr new[symmetric]] Yield Inr new i1 show ?thesis
        by (simp add: load_rows.simps[of self names lines w])
    qed
  qed
qed

lemma instances_load_from_csv: "instances (snd (load_from_csv self filename w)) = instances w"
  by (simp add: load_from_csv_def Let_def instances_load_rows split: option.splits step.splits)

lemma instances_methods:
  "instances (snd (add_player self p w)) = instances w"
  "instances (snd (edit_player self i up w)) = instances w"
  "instances (snd (delete_player self i w)) = instances w"
  "instances (snd (save_to_csv self filename w)) = instances w"
  "instances (snd (filter_by_goal_range self lo hi asc w)) = instances w"
  "instances (snd (calculate_average_goals self w)) = instances w"
  "instances (snd (calculate_median_assists self w)) = instances w"
  by (simp_all add: add_player_def edit_player_def delete_player_def save_to_csv_result
      filter_by_goal_range_def calculate_average_goals_def calculate_median_assists_def Let_def)

lemma PlayerManager_call_existing:
  "instances w ''PlayerManager'' = Some m \<Longrightarrow> PlayerManager_call w = (m, w)"
  by (simp add: PlayerManager_call_def SingletonMeta_call_def)

lemma PlayerManager_call_first:
  assumes "instances w ''PlayerManager'' = None"
  shows "fst (PlayerManager_call w) = next_manager w"
    and "get_players (next_manager w) (snd (PlayerManager_call w)) = []"
    and "instances (snd (PlayerManager_call w)) ''PlayerManager'' = Some (next_manager w)"
  using assms
  by (simp_all add: PlayerManager_call_def SingletonMeta_call_def PlayerManager_init_def
      get_players_def)

lemma PlayerManager_call_registers:
  "instances (snd (PlayerManager_call w)) ''PlayerManager'' = Some (fst (PlayerManager_call w))"
proof (cases "instances w ''PlayerManager''")
  case None
  from PlayerManager_call_first(1,3)[OF None] show ?thesis by simp
next
  case (Some m)
  from PlayerManager_call_existing[OF Some] Some show ?thesis by simp
qed


text \<open>
  C10. \<^verbatim>\<open>PlayerManager()\<close> goes through \<^verbatim>\<open>SingletonMeta.__call__\<close>. Once the class has
  an instance, every call returns that same object and leaves the world exactly as it
  is: \<^verbatim>\<open>__init__\<close> does not run again and no player list is reset. Only the first
  call creates the object, with an empty list, and registers it. No method of the
  manager touches the table of instances, so this stays true after any of them; in
  particular a record added through the instance is still in its list after the next
  \<^verbatim>\<open>PlayerManager()\<close>.
\<close>

theorem PlayerManager_is_a_singleton:
  "PlayerManager_call (snd (PlayerManager_call w)) = PlayerManager_call w \<and>
   (instances w ''PlayerManager'' = Some m \<longrightarrow> PlayerManager_call w = (m, w)) \<and>
   (instances w ''PlayerManager'' = None \<longrightarrow>
      fst (PlayerManager_call w) = next_manager w \<and>
      get_players (next_manager w) (snd (PlayerManager_call w)) = [] \<and>
      instances (snd (PlayerManager_call w)) ''PlayerManager'' = Some (next_manager w)) \<and>
   instances (snd (add_player self p w)) = instances w \<and>
   instances (snd (edit_player self i up w)) = instances w \<and>
   instances (snd (delete_player self i w)) = instances w \<and>
   instances (snd (save_to_csv self filename w)) = instances w \<and>
   instances (snd (load_from_csv self filename w)) = instances w \<and>
   instances (snd (filter_by_goal_range self lo hi asc w)) = instances w \<and>
   instances (snd (calculate_average_goals self w)) = instances w \<and>
   instances (snd (calculate_median_assists self w)) = instances w \<and>
   PlayerManager_call (snd (add_player (fst (PlayerManager_call w)) p (snd (PlayerManager_call w))))
     = (fst (PlayerManager_call w),
        snd (add_player (fst (PlayerManager_call w)) p (snd (PlayerManager_call w)))) \<and>
   get_players (fst (PlayerManager_call w))
     (snd (PlayerManager_call
        (snd (add_player (fst (PlayerManager_call w)) p (snd (PlayerManager_call w))))))
     = get_players (fst (PlayerManager_call w)) (snd (PlayerManager_call w)) @ [p]"
proof -
  let ?m = "fst (PlayerManager_call w)"
  let ?w1 = "snd (PlayerManager_call w)"
  let ?w2 = "snd (add_player ?m p ?w1)"
  have reg: "instances ?w1 ''PlayerManager'' = Some ?m"
    by (rule PlayerManager_call_registers)
  have again: "PlayerManager_call ?w1 = PlayerManager_call w"
    using PlayerManager_call_existing[OF reg] by simp
  have "instances ?w2 ''PlayerManager'' = Some ?m"
    using reg by (simp add: instances_methods)
  then have after: "PlayerManager_call ?w2 = (?m, ?w2)"
    by (rule PlayerManager_call_existing)
  have kept: "get_players ?m (snd (PlayerManager_call ?w2)) = get_players ?m ?w1 @ [p]"
    unfolding after by (simp add: add_player_def)
  show ?thesis
    using again after kept PlayerManager_call_existing[of w m] PlayerManager_call_first[of w]
    by (simp add: instances_methods instances_load_from_csv)
qed

theorem PlayerManager_singleton_witness:
  "instances initial_world ''PlayerManager'' = None \<and>
   fst (PlayerManager_call initial_world) = 0 \<and>
   instances (snd (PlayerManager_call initial_world)) ''PlayerManager'' = Some 0 \<and>
   fst (PlayerManager_call (snd (add_player 0 7 (snd (PlayerManager_call initial_world))))) = 0 \<and>
   get_players 0
     (snd (PlayerManager_call (snd (add_player 0 7 (snd (PlayerManager_call initial_world))))))
     = [7]"
proof -
  have none: "instances initial_world ''PlayerManager'' = None"
    by (simp add: initial_world_def)
  have nm: "next_manager initial_world = 0"
    by (simp add: initial_world_def)
  note t = PlayerManager_is_a_singleton[of initial_world 0 7]
  have f: "fst (PlayerManager_call initial_world) = 0"
    using t none nm by simp
  have e: "get_players 0 (snd (PlayerManager_call initial_world)) = []"
    using t none nm by simp
  have r: "instances (snd (PlayerManager_call initial_world)) ''PlayerManager'' = Some 0"
    using t none nm by simp
  from t have "PlayerManager_call (snd (add_player (fst (PlayerManager_call initial_world)) 7
        (snd (PlayerManager_call initial_world))))
     = (fst (PlayerManager_call initial_world),
        snd (add_player (fst (PlayerManager_call initial_world)) 7
          (snd (PlayerManager_call initial_world))))"
    by blast
  then have a: "fst (PlayerManager_call (snd (add_player 0 7 (snd (PlayerManager_call initial_world))))) = 0"
    unfolding f by simp
  from t have "get_players (fst (PlayerManager_call initial_world))
     (snd (PlayerManager_call
        (snd (add_player (fst (PlayerManager_call initial_world)) 7
          (snd (PlayerManager_call initial_world))))))
     = get_players (fst (PlayerManager_call initial_world)) (snd (PlayerManager_call initial_world)) @ [7]"
    by blast
  then have k: "get_players 0
     (snd (PlayerManager_call (snd (add_player 0 7 (snd (PlayerManager_call initial_world))))))
     = [7]"
    unfolding f e by simp
  show ?thesis using none f r a k by simp
qed

subsection \<open>Loading a file\<close>





subsection \<open>Saving and loading again\<close>



subsection \<open>The header row\<close>




end
